theory Spec2Isabelle
  imports
    Complex_Main
    "HOL-Library.AList"
    "HOL-Library.Multiset"
    "HOL-Library.Char_ord"
    "HOL-Library.List_Lexorder"
begin

section \<open>The weather widget: data model\<close>

text \<open>
  The component \<^verbatim>\<open>WeatherApp\<close> keeps six state variables, fetches a forecast for a
  city through two HTTP requests and reshapes the response before storing it.

  Numbers. The four measurements are JavaScript numbers, that is IEEE 754 doubles; the
  next section models them with the two operations the code applies to them.

  Strings are \<^typ>\<open>string\<close>: a \<^typ>\<open>char\<close> stands for the UTF-16 code unit of the
  same code, below 256. Strings are compared by these codes, position by position,
  as \<^verbatim>\<open><\<close> compares them in JavaScript.
\<close>

section \<open>JavaScript numbers\<close>

text \<open>
  A number is a finite double, given by its exact rational value (\<open>Finite 0\<close> is
  \<open>+0\<close>), the negative zero, one of the two infinities, or \<^verbatim>\<open>NaN\<close>. Equality of this
  type is identity of values: \<^verbatim>\<open>NaN\<close> is equal to itself and \<open>-0\<close> differs from \<open>+0\<close>.
\<close>

datatype number = Finite rat | NegZero | PosInf | NegInf | NaN

definition pow2 :: "int \<Rightarrow> rat" where
  "pow2 k = (if 0 \<le> k then 2 ^ nat k else 1 / 2 ^ nat (- k))"

text \<open>
  The binary exponent of a positive rational \<open>a\<close>: the \<open>k\<close> with \<open>2^k \<le> a < 2^(k+1)\<close>,
  searched upwards from 0 up to 1024 (beyond the largest double) or downwards from 0
  down to -1022 (the exponent of the subnormal doubles).
\<close>

function exponent_up :: "rat \<Rightarrow> int \<Rightarrow> int" where
  "exponent_up a k = (if 2 \<le> a \<and> k < 1024 then exponent_up (a / 2) (k + 1) else k)"
  by pat_completeness auto
termination
  by (relation "measure (\<lambda>(a, k). nat (1024 - k))") auto

function exponent_down :: "rat \<Rightarrow> int \<Rightarrow> int" where
  "exponent_down a k = (if a < 1 \<and> - 1022 < k then exponent_down (2 * a) (k - 1) else k)"
  by pat_completeness auto
termination
  by (relation "measure (\<lambda>(a, k). nat (k + 1022))") auto

declare exponent_up.simps [simp del] exponent_down.simps [simp del]

definition exponent_of :: "rat \<Rightarrow> int" where
  "exponent_of a = (if 1 \<le> a then exponent_up a 0 else exponent_down a 0)"

text \<open>Rounding to the nearest integer, a tie to the even one.\<close>

definition round_half_even :: "rat \<Rightarrow> int" where
  "round_half_even x =
     (let f = \<lfloor>x\<rfloor>; d = x - of_int f in
      if d < 1 / 2 then f
      else if 1 / 2 < d then f + 1
      else if even f then f else f + 1)"

text \<open>
  The double that an exact non-zero result \<open>q\<close> of an operation becomes: \<open>\<bar>q\<bar>\<close> is
  rounded to a multiple of the unit in the last place, which is \<open>2^(k-52)\<close> for the
  exponent \<open>k\<close>; a result that rounds to zero keeps the sign of \<open>q\<close>, and one that
  reaches \<open>2^1024\<close> is an infinity.
\<close>

definition round64 :: "rat \<Rightarrow> number" where
  "round64 q =
     (if q = 0 then Finite 0
      else
        let a = \<bar>q\<bar>;
            ulp = pow2 (exponent_of a - 52);
            m = round_half_even (a / ulp);
            r = of_int m * ulp
        in if m = 0 then (if q < 0 then NegZero else Finite 0)
           else if pow2 1024 \<le> r then (if q < 0 then NegInf else PosInf)
           else Finite (if q < 0 then - r else r))"

text \<open>\<open>x + y\<close> (the operator of \<^verbatim>\<open>+=\<close> in lines 85-88).\<close>

definition number_add :: "number \<Rightarrow> number \<Rightarrow> number" where
  "number_add x y =
     (case (x, y) of
        (NaN, _) \<Rightarrow> NaN
      | (_, NaN) \<Rightarrow> NaN
      | (PosInf, NegInf) \<Rightarrow> NaN
      | (NegInf, PosInf) \<Rightarrow> NaN
      | (PosInf, _) \<Rightarrow> PosInf
      | (_, PosInf) \<Rightarrow> PosInf
      | (NegInf, _) \<Rightarrow> NegInf
      | (_, NegInf) \<Rightarrow> NegInf
      | (NegZero, NegZero) \<Rightarrow> NegZero
      | (NegZero, Finite b) \<Rightarrow> Finite b
      | (Finite a, NegZero) \<Rightarrow> Finite a
      | (Finite a, Finite b) \<Rightarrow> round64 (a + b))"

text \<open>
  \<open>x / n\<close> for a counter \<open>n\<close> (lines 95-98). The counter starts at 1 and grows by 1 for
  each element of an array, which has fewer than \<open>2^32\<close> elements, so it is an exact
  integer and is a \<^typ>\<open>nat\<close> here.
\<close>

definition divide_by_count :: "number \<Rightarrow> nat \<Rightarrow> number" where
  "divide_by_count x n =
     (case x of
        NaN \<Rightarrow> NaN
      | PosInf \<Rightarrow> PosInf
      | NegInf \<Rightarrow> NegInf
      | NegZero \<Rightarrow> (if n = 0 then NaN else NegZero)
      | Finite a \<Rightarrow>
          if n = 0 then (if a = 0 then NaN else if 0 < a then PosInf else NegInf)
          else round64 (a / of_nat n))"

text \<open>A value \<open>Finite q\<close> is a JavaScript number when \<open>q\<close> is a double, that is when
  rounding returns it.\<close>

definition double_value :: "number \<Rightarrow> bool" where
  "double_value x \<longleftrightarrow> (case x of Finite q \<Rightarrow> round64 q = Finite q | _ \<Rightarrow> True)"

section \<open>The data of the component\<close>

text \<open>\<^verbatim>\<open>interface WeatherItem\<close>: one entry of the forecast response, nested as the
  endpoint sends it (\<^verbatim>\<open>{dt_txt, main: {temp, pressure, humidity}, wind: {speed}}\<close>).
  Its field names carry a prefix, because the flat point below has fields of the same
  names.\<close>

record main_fields =
  main_temp :: number
  main_pressure :: number
  main_humidity :: number

record wind_fields =
  wind_speed :: number

record WeatherItem =
  item_dt_txt :: string
  item_main :: main_fields
  item_wind :: wind_fields

text \<open>An element of \<^verbatim>\<open>WeatherData['data']\<close>: the flat point built by the \<^verbatim>\<open>map\<close>
  callback of lines 64-70.\<close>

record point =
  dt_txt :: string
  temp :: number
  pressure :: number
  humidity :: number
  wind :: number

text \<open>A value of \<^verbatim>\<open>groupedData\<close>: \<^verbatim>\<open>{ ...item, count: 1 }\<close>, the point extended by a
  counter.\<close>

record entry = point +
  count :: nat

text \<open>\<^verbatim>\<open>interface WeatherData\<close>.\<close>

record WeatherData =
  wd_city :: string
  wd_data :: "point list"

section \<open>Normalisation (lines 64-100 of \<^verbatim>\<open>fetchWeatherData\<close>)\<close>

subsection \<open>Field extraction\<close>

definition to_point :: "WeatherItem \<Rightarrow> point" where
  "to_point item =
     \<lparr>dt_txt = item_dt_txt item,
      temp = main_temp (item_main item),
      pressure = main_pressure (item_main item),
      humidity = main_humidity (item_main item),
      wind = wind_speed (item_wind item)\<rparr>"

subsection \<open>Sorting by parsed timestamp\<close>

text \<open>
  \<^verbatim>\<open>new Date(s).getTime()\<close> belongs to the platform, not to the repository. It is a
  parameter \<open>getTime :: string \<Rightarrow> int option\<close> of everything below: \<open>Some ms\<close> is the
  epoch time in milliseconds, \<open>None\<close> is \<^verbatim>\<open>NaN\<close> (the string is not a date for this
  engine).

  The comparator of line 73 subtracts two such values; the difference is \<^verbatim>\<open>NaN\<close> as
  soon as one of them is.
\<close>

definition compare_dt :: "(string \<Rightarrow> int option) \<Rightarrow> point \<Rightarrow> point \<Rightarrow> int option" where
  "compare_dt getTime a b =
     (case getTime (dt_txt a) of
        None \<Rightarrow> None
      | Some x \<Rightarrow> (case getTime (dt_txt b) of None \<Rightarrow> None | Some y \<Rightarrow> Some (x - y)))"

text \<open>\<^verbatim>\<open>Array.prototype.sort\<close> reads a comparator result \<^verbatim>\<open>NaN\<close> as \<open>+0\<close>.\<close>

definition sort_compare :: "(string \<Rightarrow> int option) \<Rightarrow> point \<Rightarrow> point \<Rightarrow> int" where
  "sort_compare getTime a b = (case compare_dt getTime a b of None \<Rightarrow> 0 | Some v \<Rightarrow> v)"

text \<open>
  \<^verbatim>\<open>Array.prototype.sort\<close> is a stable sort. With a consistent comparator its result
  is the one stable arrangement, which insertion from the right computes: an element
  goes in front of the first element it does not exceed, so it stays in front of the
  later elements that compare equal to it. A comparator that always answers 0 is
  consistent: the input order stays. When some timestamps parse and others do not, the
  comparator is not consistent and the language leaves the arrangement to the engine;
  the function below is then one of the results it admits. What is proved further on
  either carries the condition under which the comparator is consistent, or holds for
  every arrangement of the points (\<open>unparsed_not_ascending\<close>,
  \<open>day_point_any_arrangement\<close>, \<open>day_dates_any_arrangement\<close>).
\<close>

fun insert_sorted :: "(string \<Rightarrow> int option) \<Rightarrow> point \<Rightarrow> point list \<Rightarrow> point list" where
  "insert_sorted getTime a [] = [a]"
| "insert_sorted getTime a (b # bs) =
     (if sort_compare getTime a b \<le> 0 then a # b # bs
      else b # insert_sorted getTime a bs)"

fun sort_data :: "(string \<Rightarrow> int option) \<Rightarrow> point list \<Rightarrow> point list" where
  "sort_data getTime [] = []"
| "sort_data getTime (a # as) = insert_sorted getTime a (sort_data getTime as)"

subsection \<open>Grouping by day\<close>

text \<open>\<^verbatim>\<open>item.dt_txt.split(' ')[0]\<close>: the text in front of the first space, the whole
  string when it has none.\<close>

definition date_of :: "string \<Rightarrow> string" where
  "date_of s = takeWhile (\<lambda>c. c \<noteq> CHR '' '') s"

text \<open>
  \<^verbatim>\<open>groupedData\<close> is an ordinary object created by \<^verbatim>\<open>{}\<close>. Its own properties are
  an association list in creation order. A read \<^verbatim>\<open>groupedData[date]\<close> that finds no
  own property continues in \<^verbatim>\<open>Object.prototype\<close>, whose members are functions or
  objects and therefore truthy.
\<close>

definition object_prototype_names :: "string list" where
  "object_prototype_names =
     [''constructor'', ''hasOwnProperty'', ''isPrototypeOf'', ''propertyIsEnumerable'',
      ''toLocaleString'', ''toString'', ''valueOf'', ''__proto__'',
      ''__defineGetter__'', ''__defineSetter__'', ''__lookupGetter__'', ''__lookupSetter__'']"

definition inherited :: "string \<Rightarrow> bool" where
  "inherited k \<longleftrightarrow> k \<in> set object_prototype_names"

definition add_item :: "entry \<Rightarrow> point \<Rightarrow> entry" where
  "add_item e item =
     e\<lparr>temp := number_add (temp e) (temp item),
       pressure := number_add (pressure e) (pressure item),
       humidity := number_add (humidity e) (humidity item),
       wind := number_add (wind e) (wind item),
       count := count e + 1\<rparr>"

text \<open>
  The callback of \<^verbatim>\<open>data.forEach\<close> (lines 80-91). Three cases:
  \<^item> an own property exists: its sums and counter grow, its place in the object stays;
  \<^item> no own property, but the name is inherited: the condition \<^verbatim>\<open>!groupedData[date]\<close>
    is false, the \<^verbatim>\<open>else\<close> branch assigns to properties of the inherited value, and
    \<^verbatim>\<open>groupedData\<close> gets no property;
  \<^item> otherwise a new own property is appended.
\<close>

definition group_step :: "(string \<times> entry) list \<Rightarrow> point \<Rightarrow> (string \<times> entry) list" where
  "group_step groupedData item =
     (let date = date_of (dt_txt item) in
      case map_of groupedData date of
        Some e \<Rightarrow> AList.update date (add_item e item) groupedData
      | None \<Rightarrow>
          if inherited date then groupedData
          else groupedData @ [(date, point.extend item \<lparr>count = 1\<rparr>)])"

text \<open>
  \<^verbatim>\<open>Object.keys\<close> lists the own property names that are array indices first, by
  ascending value, then the other names in creation order. An array index is the
  canonical decimal form of an integer between 0 and \<open>2^32 - 2 = 4294967294\<close>.
\<close>

definition is_digit :: "char \<Rightarrow> bool" where
  "is_digit c \<longleftrightarrow> CHR ''0'' \<le> c \<and> c \<le> CHR ''9''"

definition decimal_value :: "string \<Rightarrow> int" where
  "decimal_value s = foldl (\<lambda>n c. 10 * n + (of_char c - 48)) 0 s"

definition is_array_index :: "string \<Rightarrow> bool" where
  "is_array_index k \<longleftrightarrow>
     k \<noteq> [] \<and> list_all is_digit k \<and> (k = ''0'' \<or> hd k \<noteq> CHR ''0'') \<and>
     decimal_value k < 4294967295"

definition object_keys :: "(string \<times> 'v) list \<Rightarrow> string list" where
  "object_keys obj =
     (let names = map fst obj in
      sort_key decimal_value (filter is_array_index names) @
      filter (\<lambda>k. \<not> is_array_index k) names)"

definition average :: "(string \<times> entry) list \<Rightarrow> string \<Rightarrow> point" where
  "average groupedData date =
     (let e = the (map_of groupedData date) in
      \<lparr>dt_txt = date,
       temp = divide_by_count (temp e) (count e),
       pressure = divide_by_count (pressure e) (count e),
       humidity = divide_by_count (humidity e) (count e),
       wind = divide_by_count (wind e) (count e)\<rparr>)"

definition group_by_day :: "point list \<Rightarrow> point list" where
  "group_by_day data =
     (let groupedData = foldl group_step [] data in
      map (average groupedData) (object_keys groupedData))"

subsection \<open>The pipeline\<close>

text \<open>Lines 72-100 on the flat points, and lines 64-100 on the response list.\<close>

definition normalize_points :: "(string \<Rightarrow> int option) \<Rightarrow> string \<Rightarrow> point list \<Rightarrow> point list" where
  "normalize_points getTime granularity data =
     (let sorted_data = sort_data getTime data in
      if granularity = ''day'' then group_by_day sorted_data else sorted_data)"

definition normalize :: "(string \<Rightarrow> int option) \<Rightarrow> string \<Rightarrow> WeatherItem list \<Rightarrow> point list" where
  "normalize getTime granularity list = normalize_points getTime granularity (map to_point list)"

section \<open>The fetch and the event handlers\<close>

subsection \<open>View state\<close>

text \<open>The six \<^verbatim>\<open>useState\<close> variables of the component (lines 31-36) and their initial
  values.\<close>

record view_state =
  city :: string
  cityData :: "WeatherData option"
  metric :: string
  granularity :: string
  isLoading :: bool
  error :: "string option"

definition initial :: view_state where
  "initial =
     \<lparr>city = [], cityData = None, metric = ''temp'', granularity = ''3h'',
      isLoading = False, error = None\<rparr>"

subsection \<open>The network\<close>

text \<open>
  A request either throws or answers; what it does is chosen by the outside world, so
  each fetch takes the behaviour of the two endpoints as an argument. A thrown value
  is an \<^verbatim>\<open>Error\<close> with its message, or some other value; an answer without the
  fields the code reads makes the code throw a \<^verbatim>\<open>TypeError\<close> and is a thrown value too.
  Every function that can issue requests returns the list of requests it issued next
  to the new state.
\<close>

datatype thrown = JsError string | NotAnError

record coordinates =
  lat :: real
  lon :: real

datatype request = Geocode string | Forecast real real

record network =
  geo_response :: "string \<Rightarrow> thrown + coordinates list"
  forecast_response :: "real \<Rightarrow> real \<Rightarrow> thrown + WeatherItem list"

subsection \<open>\<^verbatim>\<open>fetchWeatherData\<close>\<close>

text \<open>\<^verbatim>\<open>!API_KEY\<close> holds for \<^verbatim>\<open>undefined\<close> and for the empty string.\<close>

definition configured :: "string option \<Rightarrow> bool" where
  "configured API_KEY \<longleftrightarrow> (case API_KEY of None \<Rightarrow> False | Some k \<Rightarrow> k \<noteq> [])"

text \<open>The body of the \<^verbatim>\<open>try\<close> block (lines 50-103) up to the argument of
  \<^verbatim>\<open>setCityData\<close>: what it throws or computes, and the requests it sent.\<close>

definition try_block ::
  "(string \<Rightarrow> int option) \<Rightarrow> network \<Rightarrow> string \<Rightarrow> string \<Rightarrow> (thrown + WeatherData) \<times> request list"
where
  "try_block getTime net cityName gran =
     (case geo_response net cityName of
        Inl e \<Rightarrow> (Inl e, [Geocode cityName])
      | Inr [] \<Rightarrow> (Inl (JsError ''City not found''), [Geocode cityName])
      | Inr (c # _) \<Rightarrow>
          (case forecast_response net (lat c) (lon c) of
             Inl e \<Rightarrow> (Inl e, [Geocode cityName, Forecast (lat c) (lon c)])
           | Inr list \<Rightarrow>
               (Inr \<lparr>wd_city = cityName, wd_data = normalize getTime gran list\<rparr>,
                [Geocode cityName, Forecast (lat c) (lon c)])))"

text \<open>Line 105: \<^verbatim>\<open>error instanceof Error ? error.message : 'Failed to fetch weather data'\<close>.\<close>

definition message_of :: "thrown \<Rightarrow> string" where
  "message_of e = (case e of JsError m \<Rightarrow> m | NotAnError \<Rightarrow> ''Failed to fetch weather data'')"

text \<open>
  The whole function (lines 40-110), run without interruption: the check of the key,
  the two assignments in front of \<^verbatim>\<open>try\<close>, the \<^verbatim>\<open>try\<close> block with its \<^verbatim>\<open>catch\<close>,
  and \<^verbatim>\<open>finally\<close>.
\<close>

definition fetchWeatherData ::
  "(string \<Rightarrow> int option) \<Rightarrow> string option \<Rightarrow> network \<Rightarrow> string \<Rightarrow> string \<Rightarrow>
   view_state \<Rightarrow> view_state \<times> request list"
where
  "fetchWeatherData getTime API_KEY net cityName gran s =
     (if \<not> configured API_KEY then (s\<lparr>error := Some ''API key is not configured''\<rparr>, [])
      else
        let s1 = s\<lparr>isLoading := True, error := None\<rparr>;
            (outcome, requests) = try_block getTime net cityName gran;
            s2 = (case outcome of
                    Inr wd \<Rightarrow> s1\<lparr>cityData := Some wd\<rparr>
                  | Inl e \<Rightarrow> s1\<lparr>error := Some (message_of e)\<rparr>)
        in (s2\<lparr>isLoading := False\<rparr>, requests))"

subsection \<open>Handlers\<close>

text \<open>\<^verbatim>\<open>String.prototype.trim\<close> removes white space and line terminators at both ends;
  among the characters of \<^typ>\<open>char\<close> these are the codes 9 to 13, 32 and 160.\<close>

definition is_white_space :: "char \<Rightarrow> bool" where
  "is_white_space c \<longleftrightarrow> of_char c \<in> set [9, 10, 11, 12, 13, 32, 160 :: nat]"

definition trim :: "string \<Rightarrow> string" where
  "trim s = rev (dropWhile is_white_space (rev (dropWhile is_white_space s)))"

definition handleCitySubmit ::
  "(string \<Rightarrow> int option) \<Rightarrow> string option \<Rightarrow> network \<Rightarrow> view_state \<Rightarrow> view_state \<times> request list"
where
  "handleCitySubmit getTime API_KEY net s =
     (if trim (city s) \<noteq> []
      then fetchWeatherData getTime API_KEY net (trim (city s)) (granularity s) s
      else (s, []))"

definition handleInputChange :: "string \<Rightarrow> view_state \<Rightarrow> view_state \<times> request list" where
  "handleInputChange v s = (s\<lparr>city := v\<rparr>, [])"

definition handleMetricChange :: "string \<Rightarrow> view_state \<Rightarrow> view_state \<times> request list" where
  "handleMetricChange v s = (s\<lparr>metric := v\<rparr>, [])"

definition handleGranularityChange ::
  "(string \<Rightarrow> int option) \<Rightarrow> string option \<Rightarrow> network \<Rightarrow> string \<Rightarrow> view_state \<Rightarrow>
   view_state \<times> request list"
where
  "handleGranularityChange getTime API_KEY net newGranularity s =
     (let s1 = s\<lparr>granularity := newGranularity\<rparr> in
      if trim (city s) \<noteq> []
      then fetchWeatherData getTime API_KEY net (trim (city s)) newGranularity s1
      else (s1, []))"

subsection \<open>Reachable states\<close>

text \<open>
  An \<^verbatim>\<open>async\<close> function runs up to an \<^verbatim>\<open>await\<close>, and other handlers may run before it
  resumes. The states the component can be in are therefore closed under each group
  of assignments that runs in one piece: a setter of a handler, the rejection for a
  missing key (lines 41-44), the start of an attempt (lines 46-47), its failure
  (lines 105 and 108) and its success (lines 103 and 108). The key is read once and
  does not change.
\<close>

inductive reachable :: "string option \<Rightarrow> view_state \<Rightarrow> bool" for API_KEY :: "string option" where
  at_start: "reachable API_KEY initial"
| set_city: "reachable API_KEY s \<Longrightarrow> reachable API_KEY (s\<lparr>city := v\<rparr>)"
| set_metric: "reachable API_KEY s \<Longrightarrow> reachable API_KEY (s\<lparr>metric := v\<rparr>)"
| set_granularity: "reachable API_KEY s \<Longrightarrow> reachable API_KEY (s\<lparr>granularity := v\<rparr>)"
| rejected:
    "reachable API_KEY s \<Longrightarrow> \<not> configured API_KEY \<Longrightarrow>
     reachable API_KEY (s\<lparr>error := Some ''API key is not configured''\<rparr>)"
| started:
    "reachable API_KEY s \<Longrightarrow> configured API_KEY \<Longrightarrow>
     reachable API_KEY (s\<lparr>isLoading := True, error := None\<rparr>)"
| failed:
    "reachable API_KEY s \<Longrightarrow> configured API_KEY \<Longrightarrow>
     reachable API_KEY (s\<lparr>error := Some m, isLoading := False\<rparr>)"
| succeeded:
    "reachable API_KEY s \<Longrightarrow> configured API_KEY \<Longrightarrow>
     reachable API_KEY (s\<lparr>cityData := Some wd, isLoading := False\<rparr>)"

code_pred reachable .

section \<open>Notions used to state the properties\<close>

text \<open>A response entry whose four values are written as decimal numbers: reading the
  response text makes of each the nearest double, so \<^verbatim>\<open>0.1\<close> is the double next to one
  tenth, and a whole number of moderate size is itself.\<close>

definition observation :: "string \<Rightarrow> rat \<Rightarrow> rat \<Rightarrow> rat \<Rightarrow> rat \<Rightarrow> WeatherItem" where
  "observation d t p h w =
     \<lparr>item_dt_txt = d,
      item_main = \<lparr>main_temp = round64 t, main_pressure = round64 p,
        main_humidity = round64 h\<rparr>,
      item_wind = \<lparr>wind_speed = round64 w\<rparr>\<rparr>"

text \<open>The response entry that carries the values of a point: feeding a series back
  into the pipeline means sending these entries.\<close>

definition to_item :: "point \<Rightarrow> WeatherItem" where
  "to_item p =
     \<lparr>item_dt_txt = dt_txt p,
      item_main = \<lparr>main_temp = temp p, main_pressure = pressure p, main_humidity = humidity p\<rparr>,
      item_wind = \<lparr>wind_speed = wind p\<rparr>\<rparr>"

text \<open>Ascending by timestamp: of two points, the earlier one in the list has a parsed
  time, the later one has a parsed time, and the first is not greater. As in
  JavaScript, \<^verbatim>\<open>NaN\<close> is not below or equal to anything.\<close>

definition time_le :: "(string \<Rightarrow> int option) \<Rightarrow> point \<Rightarrow> point \<Rightarrow> bool" where
  "time_le getTime a b \<longleftrightarrow>
     (case getTime (dt_txt a) of
        None \<Rightarrow> False
      | Some x \<Rightarrow> (case getTime (dt_txt b) of None \<Rightarrow> False | Some y \<Rightarrow> x \<le> y))"

definition ascending :: "(string \<Rightarrow> int option) \<Rightarrow> point list \<Rightarrow> bool" where
  "ascending getTime xs = sorted_wrt (time_le getTime) xs"

text \<open>What the sort itself looks at: the comparator does not put \<open>a\<close> after \<open>b\<close>.\<close>

definition in_order :: "(string \<Rightarrow> int option) \<Rightarrow> point \<Rightarrow> point \<Rightarrow> bool" where
  "in_order getTime a b \<longleftrightarrow> sort_compare getTime a b \<le> 0"

text \<open>The observations of one day: the points, or the response entries, whose
  \<^verbatim>\<open>dt_txt\<close> starts with the given date.\<close>

definition day_items :: "string \<Rightarrow> point list \<Rightarrow> point list" where
  "day_items d xs = filter (\<lambda>p. date_of (dt_txt p) = d) xs"

definition same_day :: "string \<Rightarrow> WeatherItem list \<Rightarrow> WeatherItem list" where
  "same_day d list = filter (\<lambda>item. date_of (item_dt_txt item) = d) list"

text \<open>
  The mean as the code computes it: the first value, the others added to it one after
  the other from left to right, and the sum divided by the number of values; every
  addition and the division round to a double.
\<close>

definition sum_in_order :: "number list \<Rightarrow> number" where
  "sum_in_order vs = (case vs of [] \<Rightarrow> Finite 0 | v # rest \<Rightarrow> foldl number_add v rest)"

definition mean64 :: "number list \<Rightarrow> number" where
  "mean64 vs = divide_by_count (sum_in_order vs) (length vs)"

text \<open>The arithmetic mean of rational values, without rounding.\<close>

definition exact_mean :: "rat list \<Rightarrow> rat" where
  "exact_mean vs = sum_list vs / of_nat (length vs)"

text \<open>An entry of \<^verbatim>\<open>groupedData\<close> holds the sums and the number of the observations of
  its day.\<close>

definition totals :: "point list \<Rightarrow> string \<Rightarrow> entry \<Rightarrow> bool" where
  "totals xs k e \<longleftrightarrow>
     temp e = sum_in_order (map temp (day_items k xs)) \<and>
     pressure e = sum_in_order (map pressure (day_items k xs)) \<and>
     humidity e = sum_in_order (map humidity (day_items k xs)) \<and>
     wind e = sum_in_order (map wind (day_items k xs)) \<and>
     count e = length (day_items k xs) \<and> day_items k xs \<noteq> []"

text \<open>A calendar-day prefix starts with a digit and contains a dash, as \<^verbatim>\<open>2024-01-01\<close>
  does.\<close>

definition calendar_prefix :: "string \<Rightarrow> bool" where
  "calendar_prefix d \<longleftrightarrow> d \<noteq> [] \<and> is_digit (hd d) \<and> CHR ''-'' \<in> set d"

text \<open>
  A sample of \<^verbatim>\<open>new Date(s).getTime()\<close> for the examples: four forecast timestamps
  with their epoch milliseconds on a host whose time zone is UTC. The other strings
  the examples use (the empty string, and two timestamps with the hour 25) are dates
  for no engine.
\<close>

definition sample_getTime :: "string \<Rightarrow> int option" where
  "sample_getTime =
     map_of
       [(''2024-01-01 00:00:00'', 1704067200000),
        (''2024-01-01 03:00:00'', 1704078000000),
        (''2024-01-01 06:00:00'', 1704088800000),
        (''2024-01-02 00:00:00'', 1704153600000)]"

section \<open>Properties of the pipeline\<close>

subsection \<open>The sort\<close>

lemma mset_insert_sorted: "mset (insert_sorted getTime a xs) = add_mset a (mset xs)"
  by (induction xs) auto

lemma mset_sort_data: "mset (sort_data getTime xs) = mset xs"
  by (induction xs) (auto simp: mset_insert_sorted)

lemma set_sort_data: "set (sort_data getTime xs) = set xs"
  using mset_sort_data [of getTime xs] by (metis set_mset_mset)

lemma length_sort_data: "length (sort_data getTime xs) = length xs"
  using mset_sort_data [of getTime xs] by (metis size_mset)

lemma time_le_trans: "time_le g a b \<Longrightarrow> time_le g b c \<Longrightarrow> time_le g a c"
  by (auto simp: time_le_def split: option.splits)

lemma not_le_compare:
  "getTime (dt_txt a) \<noteq> None \<Longrightarrow> getTime (dt_txt b) \<noteq> None \<Longrightarrow>
   \<not> sort_compare getTime a b \<le> 0 \<Longrightarrow> time_le getTime b a"
  by (auto simp: sort_compare_def compare_dt_def time_le_def split: option.splits)

lemma le_compare:
  "getTime (dt_txt a) \<noteq> None \<Longrightarrow> getTime (dt_txt b) \<noteq> None \<Longrightarrow>
   sort_compare getTime a b \<le> 0 \<Longrightarrow> time_le getTime a b"
  by (auto simp: sort_compare_def compare_dt_def time_le_def split: option.splits)

lemma set_insert_sorted: "set (insert_sorted getTime a xs) = insert a (set xs)"
  using mset_insert_sorted [of getTime a xs] by (metis set_mset_add_mset_insert set_mset_mset)

lemma ascending_insert_sorted:
  assumes "getTime (dt_txt a) \<noteq> None" and "\<forall>p\<in>set xs. getTime (dt_txt p) \<noteq> None"
    and "sorted_wrt (time_le getTime) xs"
  shows "sorted_wrt (time_le getTime) (insert_sorted getTime a xs)"
  using assms
proof (induction xs)
  case Nil
  then show ?case by simp
next
  case (Cons b bs)
  show ?case
  proof (cases "sort_compare getTime a b \<le> 0")
    case True
    with Cons.prems have ab: "time_le getTime a b" by (simp add: le_compare)
    with Cons.prems have "\<forall>c\<in>set bs. time_le getTime a c"
      by (auto intro: time_le_trans)
    with ab True Cons.prems show ?thesis by simp
  next
    case False
    with Cons.prems have "time_le getTime b a" by (simp add: not_le_compare)
    with False Cons show ?thesis by (auto simp: set_insert_sorted)
  qed
qed

lemma ascending_sort_data:
  "\<forall>p\<in>set xs. getTime (dt_txt p) \<noteq> None \<Longrightarrow> sorted_wrt (time_le getTime) (sort_data getTime xs)"
  by (induction xs) (auto simp: ascending_insert_sorted set_sort_data)

text \<open>When every timestamp parses, the sort is the stable sort of the library with
  the parsed time as key.\<close>

lemma insert_sorted_insort_key:
  assumes "getTime (dt_txt a) \<noteq> None" and "\<forall>p\<in>set ys. getTime (dt_txt p) \<noteq> None"
  shows "insert_sorted getTime a ys = insort_key (\<lambda>p. the (getTime (dt_txt p))) a ys"
  using assms
  by (induction ys) (auto simp: sort_compare_def compare_dt_def)

lemma sort_data_sort_key:
  assumes "\<forall>p\<in>set xs. getTime (dt_txt p) \<noteq> None"
  shows "sort_data getTime xs = sort_key (\<lambda>p. the (getTime (dt_txt p))) xs"
  using assms
proof (induction xs)
  case Nil
  then show ?case by simp
next
  case (Cons a xs)
  then have "sort_data getTime xs = sort_key (\<lambda>p. the (getTime (dt_txt p))) xs"
    by simp
  moreover from Cons.prems
  have "insert_sorted getTime a (sort_data getTime xs) =
        insort_key (\<lambda>p. the (getTime (dt_txt p))) a (sort_data getTime xs)"
    by (intro insert_sorted_insort_key) (simp_all add: set_sort_data)
  ultimately show ?case by (simp add: sort_key_def)
qed

text \<open>A list of two or more points is not ascending, however it is arranged, when one
  of its timestamps does not parse.\<close>

lemma unparsed_not_ascending:
  assumes "p \<in> set ys" and "getTime (dt_txt p) = None" and "2 \<le> length ys"
  shows "\<not> ascending getTime ys"
proof
  assume asc: "ascending getTime ys"
  from assms(1) obtain i where i: "i < length ys" "ys ! i = p"
    by (auto simp: in_set_conv_nth)
  from assms(3) i(1) obtain j where j: "j < length ys" "j \<noteq> i"
    by (cases "i = 0") (auto intro: that [of 0] that [of 1])
  show False
  proof (cases "i < j")
    case True
    with asc j(1) have "time_le getTime (ys ! i) (ys ! j)"
      unfolding ascending_def by (simp add: sorted_wrt_iff_nth_less)
    with i(2) assms(2) show False by (simp add: time_le_def)
  next
    case False
    with j(2) have "j < i" by simp
    with asc i(1) have "time_le getTime (ys ! j) (ys ! i)"
      unfolding ascending_def by (simp add: sorted_wrt_iff_nth_less)
    with i(2) assms(2) show False by (simp add: time_le_def split: option.splits)
  qed
qed

lemma in_order_total: "\<not> in_order getTime a b \<Longrightarrow> in_order getTime b a"
  by (auto simp: in_order_def sort_compare_def compare_dt_def split: option.splits)

lemma insert_sorted_hd:
  "successively (in_order getTime) (a # xs) \<Longrightarrow> insert_sorted getTime a xs = a # xs"
  by (cases xs) (auto simp: in_order_def)

lemma successively_insert_sorted:
  "successively (in_order getTime) xs \<Longrightarrow> successively (in_order getTime) (insert_sorted getTime a xs)"
proof (induction xs)
  case Nil
  then show ?case by simp
next
  case (Cons b bs)
  show ?case
  proof (cases "sort_compare getTime a b \<le> 0")
    case True
    with Cons.prems show ?thesis by (simp add: in_order_def)
  next
    case False
    then have ba: "in_order getTime b a" using in_order_total by (simp add: in_order_def)
    from Cons have "successively (in_order getTime) (insert_sorted getTime a bs)"
      by (cases bs) auto
    with ba False Cons.prems show ?thesis
      by (cases bs) (auto simp: in_order_def)
  qed
qed

lemma successively_sort_data: "successively (in_order getTime) (sort_data getTime xs)"
  by (induction xs) (auto simp: successively_insert_sorted)

lemma sort_data_fixed:
  "successively (in_order getTime) xs \<Longrightarrow> sort_data getTime xs = xs"
proof (induction xs)
  case Nil
  then show ?case by simp
next
  case (Cons a as)
  then have "sort_data getTime as = as" by (cases as) auto
  with Cons.prems show ?case by (simp add: insert_sorted_hd)
qed

lemma sort_data_idem: "sort_data getTime (sort_data getTime xs) = sort_data getTime xs"
  by (simp add: sort_data_fixed successively_sort_data)


subsection \<open>The grouping\<close>

lemma keys_group_step:
  "map fst (group_step gd item) =
     (if date_of (dt_txt item) \<in> set (map fst gd) \<or> inherited (date_of (dt_txt item))
      then map fst gd else map fst gd @ [date_of (dt_txt item)])"
proof (cases "map_of gd (date_of (dt_txt item))")
  case None
  then have "date_of (dt_txt item) \<notin> set (map fst gd)"
    by (simp add: map_of_eq_None_iff)
  with None show ?thesis by (simp add: group_step_def)
next
  case (Some e)
  then have "date_of (dt_txt item) \<in> set (map fst gd)"
    using map_of_eq_None_iff [of gd "date_of (dt_txt item)"] by simp
  with Some show ?thesis by (simp add: group_step_def update_keys)
qed

lemma map_of_group_step_other:
  "k \<noteq> date_of (dt_txt item) \<Longrightarrow> map_of (group_step gd item) k = map_of gd k"
  by (simp add: group_step_def Let_def update_conv' map_add_def split: option.splits)

lemma map_of_group_step_same:
  "map_of (group_step gd item) (date_of (dt_txt item)) =
     (case map_of gd (date_of (dt_txt item)) of
        Some e \<Rightarrow> Some (add_item e item)
      | None \<Rightarrow> if inherited (date_of (dt_txt item)) then None
                else Some (point.extend item \<lparr>count = 1\<rparr>))"
  by (simp add: group_step_def Let_def update_conv' map_add_def split: option.splits)

lemma grouped_keys:
  "fst ` set (foldl group_step [] xs) =
     {k \<in> (\<lambda>p. date_of (dt_txt p)) ` set xs. \<not> inherited k}"
proof (induction xs rule: rev_induct)
  case Nil
  then show ?case by simp
next
  case (snoc x xs)
  have "fst ` set (group_step (foldl group_step [] xs) x) =
        set (map fst (group_step (foldl group_step [] xs) x))" by simp
  also have "\<dots> = {k \<in> (\<lambda>p. date_of (dt_txt p)) ` set (xs @ [x]). \<not> inherited k}"
    unfolding keys_group_step using snoc by auto
  finally show ?case by simp
qed

lemma grouped_distinct: "distinct (map fst (foldl group_step [] xs))"
  by (induction xs rule: rev_induct) (auto simp: keys_group_step)

lemma day_items_snoc:
  "day_items k (xs @ [x]) = (if date_of (dt_txt x) = k then day_items k xs @ [x] else day_items k xs)"
  by (simp add: day_items_def)

lemma sum_in_order_snoc:
  "vs \<noteq> [] \<Longrightarrow> sum_in_order (vs @ [v]) = number_add (sum_in_order vs) v"
  by (cases vs) (simp_all add: sum_in_order_def)

lemma totals_add_item:
  "totals xs (date_of (dt_txt x)) e \<Longrightarrow> totals (xs @ [x]) (date_of (dt_txt x)) (add_item e x)"
  by (simp add: totals_def day_items_snoc add_item_def sum_in_order_snoc)

lemma totals_first:
  "day_items (date_of (dt_txt x)) xs = [] \<Longrightarrow>
   totals (xs @ [x]) (date_of (dt_txt x)) (point.extend x \<lparr>count = 1\<rparr>)"
  by (simp add: totals_def day_items_snoc point.extend_def sum_in_order_def)

lemma grouped_totals:
  "map_of (foldl group_step [] xs) k = Some e \<Longrightarrow> totals xs k e"
proof (induction xs arbitrary: e rule: rev_induct)
  case Nil
  then show ?case by simp
next
  case (snoc x xs)
  let ?gd = "foldl group_step [] xs"
  let ?d = "date_of (dt_txt x)"
  show ?case
  proof (cases "k = ?d")
    case False
    with snoc.prems have "map_of ?gd k = Some e"
      by (simp add: map_of_group_step_other)
    then have "totals xs k e" by (rule snoc.IH)
    with False show ?thesis by (simp add: totals_def day_items_snoc)
  next
    case True
    show ?thesis
    proof (cases "map_of ?gd ?d")
      case (Some e0)
      with snoc.prems True have "e = add_item e0 x"
        by (simp add: map_of_group_step_same)
      moreover have "totals xs ?d e0" using snoc.IH [of e0] Some True by simp
      ultimately show ?thesis using True by (simp add: totals_add_item)
    next
      case None
      with snoc.prems True have ni: "\<not> inherited ?d" and e: "e = point.extend x \<lparr>count = 1\<rparr>"
        by (auto simp: map_of_group_step_same split: if_splits)
      from None have "?d \<notin> fst ` set ?gd" by (simp add: map_of_eq_None_iff)
      with ni have "?d \<notin> (\<lambda>p. date_of (dt_txt p)) ` set xs"
        by (simp add: grouped_keys)
      then have "day_items ?d xs = []"
        unfolding day_items_def filter_empty_conv by (metis imageI)
      then have "totals (xs @ [x]) ?d (point.extend x \<lparr>count = 1\<rparr>)"
        by (rule totals_first)
      with e True show ?thesis by simp
    qed
  qed
qed

lemma set_object_keys: "set (object_keys obj) = fst ` set obj"
  by (auto simp: object_keys_def Let_def)

lemma distinct_object_keys: "distinct (map fst obj) \<Longrightarrow> distinct (object_keys obj)"
  by (auto simp: object_keys_def Let_def distinct_map_filter)

lemma object_keys_plain:
  "\<forall>k\<in>fst ` set obj. \<not> is_array_index k \<Longrightarrow> object_keys obj = map fst obj"
  by (simp add: object_keys_def Let_def filter_empty_conv)


lemma grouped_lookup:
  assumes "k \<in> set (object_keys (foldl group_step [] xs))"
  shows "\<exists>e. map_of (foldl group_step [] xs) k = Some e \<and> totals xs k e"
proof -
  from assms have "k \<in> fst ` set (foldl group_step [] xs)"
    by (simp add: set_object_keys)
  then obtain e where "map_of (foldl group_step [] xs) k = Some e"
    using map_of_eq_None_iff [of "foldl group_step [] xs" k] by auto
  then show ?thesis by (auto dest: grouped_totals)
qed

lemma group_by_day_point:
  assumes "p \<in> set (group_by_day xs)"
  shows "day_items (dt_txt p) xs \<noteq> [] \<and>
         temp p = mean64 (map temp (day_items (dt_txt p) xs)) \<and>
         pressure p = mean64 (map pressure (day_items (dt_txt p) xs)) \<and>
         humidity p = mean64 (map humidity (day_items (dt_txt p) xs)) \<and>
         wind p = mean64 (map wind (day_items (dt_txt p) xs))"
proof -
  let ?gd = "foldl group_step [] xs"
  from assms obtain k where k: "k \<in> set (object_keys ?gd)" and p: "p = average ?gd k"
    by (auto simp: group_by_day_def Let_def)
  from k obtain e where e: "map_of ?gd k = Some e" and t: "totals xs k e"
    using grouped_lookup by blast
  from p e have "dt_txt p = k" "temp p = divide_by_count (temp e) (count e)"
    "pressure p = divide_by_count (pressure e) (count e)"
    "humidity p = divide_by_count (humidity e) (count e)"
    "wind p = divide_by_count (wind e) (count e)"
    by (simp_all add: average_def)
  with t show ?thesis by (simp add: totals_def mean64_def)
qed

lemma day_items_to_point:
  "day_items k (map to_point list) = map to_point (same_day k list)"
  by (simp add: day_items_def same_day_def filter_map comp_def to_point_def)

subsection \<open>The means of a day\<close>

lemma to_point_to_item: "to_point (to_item p) = p"
  by (simp add: to_point_def to_item_def)

lemma to_item_to_point: "to_item (to_point item) = item"
  by (simp add: to_point_def to_item_def)

lemma day_items_mset:
  "mset ys = mset xs \<Longrightarrow> mset (day_items k ys) = mset (day_items k xs)"
  by (simp add: day_items_def)

lemma mean64_single: "double_value v \<Longrightarrow> mean64 [v] = v"
  by (cases v) (simp_all add: mean64_def sum_in_order_def divide_by_count_def double_value_def)

text \<open>Whatever arrangement of the data the sort returns, each point of the grouping
  is the mean, in double arithmetic, of the points of its day in that arrangement.\<close>

lemma day_point_any_arrangement:
  assumes "mset xs = mset (map to_point list)" and "p \<in> set (group_by_day xs)"
  shows "\<exists>ys. mset ys = mset (map to_point (same_day (dt_txt p) list)) \<and> ys \<noteq> [] \<and>
           temp p = mean64 (map temp ys) \<and> pressure p = mean64 (map pressure ys) \<and>
           humidity p = mean64 (map humidity ys) \<and> wind p = mean64 (map wind ys)"
proof -
  let ?ys = "day_items (dt_txt p) xs"
  from assms(1) have "mset ?ys = mset (day_items (dt_txt p) (map to_point list))"
    by (rule day_items_mset)
  then have "mset ?ys = mset (map to_point (same_day (dt_txt p) list))"
    by (simp only: day_items_to_point)
  with group_by_day_point [OF assms(2)] show ?thesis by blast
qed

lemma day_point_means:
  assumes "p \<in> set (normalize getTime ''day'' list)"
  shows "\<exists>ys. mset ys = mset (map to_point (same_day (dt_txt p) list)) \<and> ys \<noteq> [] \<and>
           temp p = mean64 (map temp ys) \<and> pressure p = mean64 (map pressure ys) \<and>
           humidity p = mean64 (map humidity ys) \<and> wind p = mean64 (map wind ys)"
proof -
  from assms have "p \<in> set (group_by_day (sort_data getTime (map to_point list)))"
    by (simp add: normalize_def normalize_points_def)
  with mset_sort_data show ?thesis by (rule day_point_any_arrangement)
qed

lemma day_point_means_in_time_order:
  assumes "\<forall>item\<in>set list. getTime (item_dt_txt item) \<noteq> None"
    and "p \<in> set (normalize getTime ''day'' list)"
  shows "temp p = mean64 (map temp (day_items (dt_txt p)
           (sort_key (\<lambda>q. the (getTime (dt_txt q))) (map to_point list)))) \<and>
         pressure p = mean64 (map pressure (day_items (dt_txt p)
           (sort_key (\<lambda>q. the (getTime (dt_txt q))) (map to_point list)))) \<and>
         humidity p = mean64 (map humidity (day_items (dt_txt p)
           (sort_key (\<lambda>q. the (getTime (dt_txt q))) (map to_point list)))) \<and>
         wind p = mean64 (map wind (day_items (dt_txt p)
           (sort_key (\<lambda>q. the (getTime (dt_txt q))) (map to_point list))))"
proof -
  from assms(1) have "\<forall>q\<in>set (map to_point list). getTime (dt_txt q) \<noteq> None"
    by (simp add: to_point_def)
  then have "sort_data getTime (map to_point list) =
      sort_key (\<lambda>q. the (getTime (dt_txt q))) (map to_point list)"
    by (rule sort_data_sort_key)
  with assms(2) have "p \<in> set (group_by_day
      (sort_key (\<lambda>q. the (getTime (dt_txt q))) (map to_point list)))"
    by (simp add: normalize_def normalize_points_def)
  from group_by_day_point [OF this] show ?thesis by simp
qed

lemma day_point_single:
  assumes "p \<in> set (normalize getTime ''day'' list)"
    and "same_day (dt_txt p) list = [item]"
    and "double_value (main_temp (item_main item))"
    and "double_value (main_pressure (item_main item))"
    and "double_value (main_humidity (item_main item))"
    and "double_value (wind_speed (item_wind item))"
  shows "temp p = main_temp (item_main item) \<and> pressure p = main_pressure (item_main item) \<and>
         humidity p = main_humidity (item_main item) \<and> wind p = wind_speed (item_wind item)"
proof -
  from day_point_means [OF assms(1)] obtain ys
    where ys: "mset ys = mset (map to_point (same_day (dt_txt p) list))"
      and v: "temp p = mean64 (map temp ys)" "pressure p = mean64 (map pressure ys)"
        "humidity p = mean64 (map humidity ys)" "wind p = mean64 (map wind ys)"
    by blast
  from ys assms(2) have "ys = [to_point item]" by simp
  with v assms(3-6) show ?thesis by (simp add: mean64_single to_point_def)
qed


section \<open>Evaluation\<close>

text \<open>The definitions to unfold when the pipeline is run on an example, and the
  roundings that the examples need.\<close>

lemmas pipeline_defs = normalize_def normalize_points_def observation_def to_point_def

lemmas sort_defs = sort_compare_def compare_dt_def sample_getTime_def

lemmas grouping_defs =
  group_by_day_def object_keys_def group_step_def date_of_def inherited_def
  object_prototype_names_def is_array_index_def is_digit_def average_def add_item_def
  point.extend_def Let_def


lemma floor_rat_numeral_divide:
  "\<lfloor>numeral a / numeral b :: rat\<rfloor> = numeral a div numeral b"
  by (metis floor_divide_of_int_eq of_int_numeral)

lemmas round64_eval =
  exponent_of_def exponent_up.simps exponent_down.simps pow2_def floor_rat_numeral_divide

lemma round64_examples:
  "round64 30 = Finite 30" "round64 15 = Finite 15"
  "round64 2010 = Finite 2010" "round64 1005 = Finite 1005"
  "round64 110 = Finite 110" "round64 55 = Finite 55"
  "round64 6 = Finite 6" "round64 3 = Finite 3"
  "round64 8 = Finite 8" "round64 990 = Finite 990" "round64 70 = Finite 70"
  "round64 2 = Finite 2" "round64 4 = Finite 4"
  "round64 2000 = Finite 2000" "round64 3000 = Finite 3000" "round64 1000 = Finite 1000"
  "round64 100 = Finite 100" "round64 150 = Finite 150" "round64 50 = Finite 50"
  "round64 0 = Finite 0" "round64 1 = Finite 1" "round64 10 = Finite 10"
  "round64 20 = Finite 20" "round64 60 = Finite 60" "round64 1010 = Finite 1010"
  "round64 (4 / 3) = Finite (6004799503160661 / 4503599627370496)"
  unfolding round64_def round_half_even_def Let_def
  by (simp_all add: round64_eval)

lemmas number_defs = number_add_def divide_by_count_def mean64_def sum_in_order_def

section \<open>The claims about the pipeline\<close>

text \<open>
  Claim C10. On an empty response list the pipeline returns the empty list for
  granularity \<^verbatim>\<open>3h\<close> and for granularity \<^verbatim>\<open>day\<close>: nothing is grouped, so no
  quotient is formed and no error can arise.
\<close>

theorem normalize_empty:
  "normalize getTime ''3h'' [] = [] \<and> normalize getTime ''day'' [] = []"
  by (simp add: normalize_def normalize_points_def group_by_day_def object_keys_def)

text \<open>
  Claim C5. For every response list and every granularity other than \<^verbatim>\<open>day\<close>,
  recognised or not, the pipeline returns what it returns for \<^verbatim>\<open>3h\<close>: the test of
  line 77 is the only place that reads the granularity.
\<close>

theorem other_granularity_is_three_hour:
  "g \<noteq> ''day'' \<Longrightarrow> normalize getTime g list = normalize getTime ''3h'' list"
  by (simp add: normalize_def normalize_points_def)

theorem other_granularity_is_three_hour_witness:
  "''hourly'' \<noteq> ''day'' \<and>
   normalize sample_getTime ''hourly''
     [observation ''2024-01-01 03:00:00'' 20 1010 60 4,
      observation ''2024-01-01 00:00:00'' 10 1000 50 2] =
   normalize sample_getTime ''3h''
     [observation ''2024-01-01 03:00:00'' 20 1010 60 4,
      observation ''2024-01-01 00:00:00'' 10 1000 50 2]"
  using other_granularity_is_three_hour [of "''hourly''" sample_getTime]
  by simp

lemma ascending_in_order:
  "ascending getTime xs \<Longrightarrow> successively (in_order getTime) xs"
proof -
  assume "ascending getTime xs"
  then have "sorted_wrt (in_order getTime) xs"
    unfolding ascending_def
    by (rule sorted_wrt_mono_rel [rotated])
      (auto simp: time_le_def in_order_def sort_compare_def compare_dt_def split: option.splits)
  then show ?thesis by (rule successively_if_sorted_wrt)
qed

text \<open>
  Claim C7. At granularity \<^verbatim>\<open>3h\<close> the pipeline is idempotent wherever the language
  fixes what the sort returns. When every timestamp parses, running the pipeline on
  the entries that carry its own output returns that output unchanged; there the sort
  is the stable sort by parsed time (\<open>sort_data_sort_key\<close>). When the comparator answers
  0 on every pair, as it does when no timestamp parses, the sort leaves the order and
  the same holds. And every list of points that is already ascending by timestamp is
  returned as it is.
\<close>

theorem three_hour_idempotent:
  "((\<forall>item\<in>set list. getTime (item_dt_txt item) \<noteq> None) \<longrightarrow>
    normalize getTime ''3h'' (map to_item (normalize getTime ''3h'' list)) =
      normalize getTime ''3h'' list) \<and>
   ((\<forall>a\<in>set list. \<forall>b\<in>set list. sort_compare getTime (to_point a) (to_point b) = 0) \<longrightarrow>
    normalize getTime ''3h'' list = map to_point list \<and>
    normalize getTime ''3h'' (map to_item (normalize getTime ''3h'' list)) =
      normalize getTime ''3h'' list) \<and>
   (ascending getTime data \<longrightarrow> normalize_points getTime ''3h'' data = data)"
proof (intro conjI impI)
  assume zero: "\<forall>a\<in>set list. \<forall>b\<in>set list.
      sort_compare getTime (to_point a) (to_point b) = 0"
  then have "sorted_wrt (in_order getTime) (map to_point list)"
    by (simp add: sorted_wrt_iff_nth_less in_order_def)
  then have "sort_data getTime (map to_point list) = map to_point list"
    by (intro sort_data_fixed successively_if_sorted_wrt)
  then have same: "normalize getTime ''3h'' list = map to_point list"
    by (simp add: normalize_def normalize_points_def)
  then show "normalize getTime ''3h'' list = map to_point list" .
  from same show "normalize getTime ''3h'' (map to_item (normalize getTime ''3h'' list)) =
      normalize getTime ''3h'' list"
    by (simp add: normalize_def normalize_points_def to_point_to_item comp_def)
next
  assume parsed: "\<forall>item\<in>set list. getTime (item_dt_txt item) \<noteq> None"
  let ?key = "\<lambda>q. the (getTime (dt_txt q))"
  from parsed have all: "\<forall>q\<in>set (map to_point list). getTime (dt_txt q) \<noteq> None"
    by (simp add: to_point_def)
  then have first: "sort_data getTime (map to_point list) = sort_key ?key (map to_point list)"
    by (rule sort_data_sort_key)
  from all have "\<forall>q\<in>set (sort_key ?key (map to_point list)). getTime (dt_txt q) \<noteq> None"
    by simp
  then have "sort_data getTime (sort_key ?key (map to_point list)) =
      sort_key ?key (sort_key ?key (map to_point list))"
    by (rule sort_data_sort_key)
  also have "\<dots> = sort_key ?key (map to_point list)"
    by (rule sort_key_id_if_sorted) simp
  finally show "normalize getTime ''3h'' (map to_item (normalize getTime ''3h'' list)) =
      normalize getTime ''3h'' list"
    by (simp add: normalize_def normalize_points_def first to_point_to_item comp_def)
next
  assume "ascending getTime data"
  then have "sort_data getTime data = data"
    by (intro sort_data_fixed ascending_in_order)
  then show "normalize_points getTime ''3h'' data = data"
    by (simp add: normalize_points_def)
qed

theorem three_hour_idempotent_witness:
  "sample_getTime ''2024-01-02 25:00:00'' = None \<and>
   sample_getTime ''2024-01-01 25:00:00'' = None \<and>
   normalize sample_getTime ''3h''
     [observation ''2024-01-02 25:00:00'' 20 1010 60 4,
      observation ''2024-01-01 25:00:00'' 10 1000 50 2] =
     [to_point (observation ''2024-01-02 25:00:00'' 20 1010 60 4),
      to_point (observation ''2024-01-01 25:00:00'' 10 1000 50 2)] \<and>
   normalize sample_getTime ''3h''
     (map to_item (normalize sample_getTime ''3h''
        [observation ''2024-01-02 25:00:00'' 20 1010 60 4,
         observation ''2024-01-01 25:00:00'' 10 1000 50 2])) =
     [to_point (observation ''2024-01-02 25:00:00'' 20 1010 60 4),
      to_point (observation ''2024-01-01 25:00:00'' 10 1000 50 2)] \<and>
   sample_getTime ''2024-01-01 03:00:00'' \<noteq> None \<and>
   sample_getTime ''2024-01-01 00:00:00'' \<noteq> None \<and>
   normalize sample_getTime ''3h''
     [observation ''2024-01-01 03:00:00'' 20 1010 60 4,
      observation ''2024-01-01 00:00:00'' 10 1000 50 2] =
     [to_point (observation ''2024-01-01 00:00:00'' 10 1000 50 2),
      to_point (observation ''2024-01-01 03:00:00'' 20 1010 60 4)] \<and>
   normalize sample_getTime ''3h''
     (map to_item (normalize sample_getTime ''3h''
        [observation ''2024-01-01 03:00:00'' 20 1010 60 4,
         observation ''2024-01-01 00:00:00'' 10 1000 50 2])) =
     [to_point (observation ''2024-01-01 00:00:00'' 10 1000 50 2),
      to_point (observation ''2024-01-01 03:00:00'' 20 1010 60 4)] \<and>
   ascending sample_getTime
     [to_point (observation ''2024-01-01 00:00:00'' 10 1000 50 2),
      to_point (observation ''2024-01-01 03:00:00'' 20 1010 60 4)] \<and>
   normalize_points sample_getTime ''3h''
     [to_point (observation ''2024-01-01 00:00:00'' 10 1000 50 2),
      to_point (observation ''2024-01-01 03:00:00'' 20 1010 60 4)] =
     [to_point (observation ''2024-01-01 00:00:00'' 10 1000 50 2),
      to_point (observation ''2024-01-01 03:00:00'' 20 1010 60 4)]"
proof -
  let ?list = "[observation ''2024-01-01 03:00:00'' 20 1010 60 4,
                observation ''2024-01-01 00:00:00'' 10 1000 50 2]"
  let ?data = "[to_point (observation ''2024-01-01 00:00:00'' 10 1000 50 2),
                to_point (observation ''2024-01-01 03:00:00'' 20 1010 60 4)]"
  have parsed: "\<forall>item\<in>set ?list. sample_getTime (item_dt_txt item) \<noteq> None"
    by (simp add: observation_def sample_getTime_def)
  have asc: "ascending sample_getTime ?data"
    by (simp add: ascending_def time_le_def observation_def to_point_def sample_getTime_def)
  have out: "normalize sample_getTime ''3h'' ?list = ?data"
    by (simp add: pipeline_defs sort_defs)
  from three_hour_idempotent [of ?list sample_getTime ?data] parsed asc
  have "normalize sample_getTime ''3h'' (map to_item (normalize sample_getTime ''3h'' ?list)) =
      normalize sample_getTime ''3h'' ?list"
    and "normalize_points sample_getTime ''3h'' ?data = ?data"
    by blast+
  note sorted_case = this
  let ?late = "[observation ''2024-01-02 25:00:00'' 20 1010 60 4,
                observation ''2024-01-01 25:00:00'' 10 1000 50 2]"
  have zero: "\<forall>a\<in>set ?late. \<forall>b\<in>set ?late.
      sort_compare sample_getTime (to_point a) (to_point b) = 0"
    by (simp add: observation_def to_point_def sort_defs)
  from three_hour_idempotent [of ?late sample_getTime ?data] zero
  have "normalize sample_getTime ''3h'' ?late = map to_point ?late"
    and "normalize sample_getTime ''3h'' (map to_item (normalize sample_getTime ''3h'' ?late)) =
      normalize sample_getTime ''3h'' ?late"
    by blast+
  with sorted_case out asc show ?thesis by (simp add: sample_getTime_def)
qed

text \<open>
  Claim C2, as amended. For every non-empty response list the \<^verbatim>\<open>3h\<close> output has the
  length of the input; when every \<^verbatim>\<open>dt_txt\<close> of the list is a date for the engine
  (its parsed time is not \<^verbatim>\<open>NaN\<close>), the output is sorted ascending by parsed
  timestamp.
\<close>

theorem three_hour_output_sorted:
  assumes "list \<noteq> []"
  shows "length (normalize getTime ''3h'' list) = length list \<and>
         ((\<forall>item\<in>set list. getTime (item_dt_txt item) \<noteq> None) \<longrightarrow>
          ascending getTime (normalize getTime ''3h'' list))"
proof -
  have "ascending getTime (sort_data getTime (map to_point list))"
    if "\<forall>item\<in>set list. getTime (item_dt_txt item) \<noteq> None"
    unfolding ascending_def using that
    by (intro ascending_sort_data) (simp add: to_point_def)
  then show ?thesis
    by (simp add: normalize_def normalize_points_def length_sort_data)
qed

theorem three_hour_output_sorted_witness:
  "[observation ''2024-01-01 03:00:00'' 20 1010 60 4,
    observation ''2024-01-01 00:00:00'' 10 1000 50 2] \<noteq> [] \<and>
   sample_getTime ''2024-01-01 03:00:00'' \<noteq> None \<and>
   sample_getTime ''2024-01-01 00:00:00'' \<noteq> None \<and>
   length (normalize sample_getTime ''3h''
     [observation ''2024-01-01 03:00:00'' 20 1010 60 4,
      observation ''2024-01-01 00:00:00'' 10 1000 50 2]) = 2 \<and>
   ascending sample_getTime (normalize sample_getTime ''3h''
     [observation ''2024-01-01 03:00:00'' 20 1010 60 4,
      observation ''2024-01-01 00:00:00'' 10 1000 50 2])"
  using three_hour_output_sorted [of
      "[observation ''2024-01-01 03:00:00'' 20 1010 60 4,
        observation ''2024-01-01 00:00:00'' 10 1000 50 2]" sample_getTime]
  by (simp add: observation_def sample_getTime_def)

text \<open>
  The statement without the condition fails. The second of these three entries has an
  empty \<^verbatim>\<open>dt_txt\<close>; its parsed time is \<^verbatim>\<open>NaN\<close>, every comparison with it yields
  \<^verbatim>\<open>NaN\<close>, and the list stays as it came, 03:00 in front of 00:00. By
  \<open>unparsed_not_ascending\<close> no other arrangement of the three would be ascending.
\<close>

theorem three_hour_unparsed_timestamp_unsorted:
  "normalize sample_getTime ''3h''
     [observation ''2024-01-01 03:00:00'' 20 1010 60 4,
      observation '''' 0 0 0 0,
      observation ''2024-01-01 00:00:00'' 10 1000 50 2] =
   [\<lparr>dt_txt = ''2024-01-01 03:00:00'', temp = Finite 20, pressure = Finite 1010,
     humidity = Finite 60, wind = Finite 4\<rparr>,
    \<lparr>dt_txt = '''', temp = Finite 0, pressure = Finite 0, humidity = Finite 0,
     wind = Finite 0\<rparr>,
    \<lparr>dt_txt = ''2024-01-01 00:00:00'', temp = Finite 10, pressure = Finite 1000,
     humidity = Finite 50, wind = Finite 2\<rparr>] \<and>
   \<not> ascending sample_getTime
     (normalize sample_getTime ''3h''
        [observation ''2024-01-01 03:00:00'' 20 1010 60 4,
         observation '''' 0 0 0 0,
         observation ''2024-01-01 00:00:00'' 10 1000 50 2])"
  by (simp add: pipeline_defs sort_defs ascending_def time_le_def round64_examples)

text \<open>
  Claim C1, as amended. For every response list, each point of the \<^verbatim>\<open>day\<close> output
  carries, in each of its four numeric fields, the mean in double arithmetic of that
  field over all entries of the input whose \<^verbatim>\<open>dt_txt\<close> starts with the point's date,
  and there is such an entry: the values are added in the order in which the sort left
  the entries, each addition rounded to a double, and the sum is divided by their
  number, rounded again. When every timestamp parses, that order is the stable order
  by parsed time. The two observations of 2024-01-01 with the values 10, 1000, 50, 2
  and 20, 1010, 60, 4 give exactly the single point 15, 1005, 55, 3. A point whose day
  has one observation has that observation's values.
\<close>

theorem day_points_are_means:
  "(\<forall>p\<in>set (normalize getTime ''day'' list).
      \<exists>ys. mset ys = mset (map to_point (same_day (dt_txt p) list)) \<and> ys \<noteq> [] \<and>
        temp p = mean64 (map temp ys) \<and> pressure p = mean64 (map pressure ys) \<and>
        humidity p = mean64 (map humidity ys) \<and> wind p = mean64 (map wind ys)) \<and>
   ((\<forall>item\<in>set list. getTime (item_dt_txt item) \<noteq> None) \<longrightarrow>
    (\<forall>p\<in>set (normalize getTime ''day'' list).
       temp p = mean64 (map temp (day_items (dt_txt p)
         (sort_key (\<lambda>q. the (getTime (dt_txt q))) (map to_point list)))) \<and>
       pressure p = mean64 (map pressure (day_items (dt_txt p)
         (sort_key (\<lambda>q. the (getTime (dt_txt q))) (map to_point list)))) \<and>
       humidity p = mean64 (map humidity (day_items (dt_txt p)
         (sort_key (\<lambda>q. the (getTime (dt_txt q))) (map to_point list)))) \<and>
       wind p = mean64 (map wind (day_items (dt_txt p)
         (sort_key (\<lambda>q. the (getTime (dt_txt q))) (map to_point list)))))) \<and>
   normalize getTime ''day''
     [observation ''2024-01-01 00:00:00'' 10 1000 50 2,
      observation ''2024-01-01 03:00:00'' 20 1010 60 4] =
   [\<lparr>dt_txt = ''2024-01-01'', temp = Finite 15, pressure = Finite 1005,
     humidity = Finite 55, wind = Finite 3\<rparr>] \<and>
   (\<forall>p\<in>set (normalize getTime ''day'' list). \<forall>item.
      same_day (dt_txt p) list = [item] \<and>
      double_value (main_temp (item_main item)) \<and>
      double_value (main_pressure (item_main item)) \<and>
      double_value (main_humidity (item_main item)) \<and>
      double_value (wind_speed (item_wind item)) \<longrightarrow>
      temp p = main_temp (item_main item) \<and> pressure p = main_pressure (item_main item) \<and>
      humidity p = main_humidity (item_main item) \<and> wind p = wind_speed (item_wind item))"
proof (intro conjI)
  show "\<forall>p\<in>set (normalize getTime ''day'' list).
      \<exists>ys. mset ys = mset (map to_point (same_day (dt_txt p) list)) \<and> ys \<noteq> [] \<and>
        temp p = mean64 (map temp ys) \<and> pressure p = mean64 (map pressure ys) \<and>
        humidity p = mean64 (map humidity ys) \<and> wind p = mean64 (map wind ys)"
    by (intro ballI) (rule day_point_means)
next
  show "(\<forall>item\<in>set list. getTime (item_dt_txt item) \<noteq> None) \<longrightarrow>
    (\<forall>p\<in>set (normalize getTime ''day'' list).
       temp p = mean64 (map temp (day_items (dt_txt p)
         (sort_key (\<lambda>q. the (getTime (dt_txt q))) (map to_point list)))) \<and>
       pressure p = mean64 (map pressure (day_items (dt_txt p)
         (sort_key (\<lambda>q. the (getTime (dt_txt q))) (map to_point list)))) \<and>
       humidity p = mean64 (map humidity (day_items (dt_txt p)
         (sort_key (\<lambda>q. the (getTime (dt_txt q))) (map to_point list)))) \<and>
       wind p = mean64 (map wind (day_items (dt_txt p)
         (sort_key (\<lambda>q. the (getTime (dt_txt q))) (map to_point list)))))"
    by (intro impI ballI) (rule day_point_means_in_time_order)
next
  show "normalize getTime ''day''
     [observation ''2024-01-01 00:00:00'' 10 1000 50 2,
      observation ''2024-01-01 03:00:00'' 20 1010 60 4] =
   [\<lparr>dt_txt = ''2024-01-01'', temp = Finite 15, pressure = Finite 1005,
     humidity = Finite 55, wind = Finite 3\<rparr>]"
    by (simp add: pipeline_defs grouping_defs number_defs round64_examples)
next
  show "\<forall>p\<in>set (normalize getTime ''day'' list). \<forall>item.
      same_day (dt_txt p) list = [item] \<and>
      double_value (main_temp (item_main item)) \<and>
      double_value (main_pressure (item_main item)) \<and>
      double_value (main_humidity (item_main item)) \<and>
      double_value (wind_speed (item_wind item)) \<longrightarrow>
      temp p = main_temp (item_main item) \<and> pressure p = main_pressure (item_main item) \<and>
      humidity p = main_humidity (item_main item) \<and> wind p = wind_speed (item_wind item)"
  proof (intro ballI allI impI)
    fix p item
    assume "p \<in> set (normalize getTime ''day'' list)"
      and "same_day (dt_txt p) list = [item] \<and>
        double_value (main_temp (item_main item)) \<and>
        double_value (main_pressure (item_main item)) \<and>
        double_value (main_humidity (item_main item)) \<and>
        double_value (wind_speed (item_wind item))"
    then show "temp p = main_temp (item_main item) \<and>
        pressure p = main_pressure (item_main item) \<and>
        humidity p = main_humidity (item_main item) \<and> wind p = wind_speed (item_wind item)"
      using day_point_single [of p getTime list item] by blast
  qed
qed

theorem day_points_are_means_witness:
  "sample_getTime ''2024-01-01 03:00:00'' \<noteq> None \<and>
   sample_getTime ''2024-01-02 00:00:00'' \<noteq> None \<and>
   sample_getTime ''2024-01-01 00:00:00'' \<noteq> None \<and>
   \<lparr>dt_txt = ''2024-01-01'', temp = Finite 15, pressure = Finite 1005,
     humidity = Finite 55, wind = Finite 3\<rparr>
     \<in> set (normalize sample_getTime ''day''
         [observation ''2024-01-01 03:00:00'' 20 1010 60 4,
          observation ''2024-01-02 00:00:00'' 8 990 70 6,
          observation ''2024-01-01 00:00:00'' 10 1000 50 2]) \<and>
   day_items ''2024-01-01''
     (sort_key (\<lambda>q. the (sample_getTime (dt_txt q)))
        (map to_point
           [observation ''2024-01-01 03:00:00'' 20 1010 60 4,
            observation ''2024-01-02 00:00:00'' 8 990 70 6,
            observation ''2024-01-01 00:00:00'' 10 1000 50 2])) =
     [to_point (observation ''2024-01-01 00:00:00'' 10 1000 50 2),
      to_point (observation ''2024-01-01 03:00:00'' 20 1010 60 4)] \<and>
   Finite 15 = mean64 [Finite 10, Finite 20] \<and>
   Finite 1005 = mean64 [Finite 1000, Finite 1010] \<and>
   Finite 55 = mean64 [Finite 50, Finite 60] \<and>
   Finite 3 = mean64 [Finite 2, Finite 4] \<and>
   \<lparr>dt_txt = ''2024-01-02'', temp = Finite 8, pressure = Finite 990,
     humidity = Finite 70, wind = Finite 6\<rparr>
     \<in> set (normalize sample_getTime ''day''
         [observation ''2024-01-01 03:00:00'' 20 1010 60 4,
          observation ''2024-01-02 00:00:00'' 8 990 70 6,
          observation ''2024-01-01 00:00:00'' 10 1000 50 2]) \<and>
   same_day ''2024-01-02''
     [observation ''2024-01-01 03:00:00'' 20 1010 60 4,
      observation ''2024-01-02 00:00:00'' 8 990 70 6,
      observation ''2024-01-01 00:00:00'' 10 1000 50 2] =
     [observation ''2024-01-02 00:00:00'' 8 990 70 6] \<and>
   double_value (Finite 8) \<and> double_value (Finite 990) \<and>
   double_value (Finite 70) \<and> double_value (Finite 6)"
proof -
  let ?list = "[observation ''2024-01-01 03:00:00'' 20 1010 60 4,
                observation ''2024-01-02 00:00:00'' 8 990 70 6,
                observation ''2024-01-01 00:00:00'' 10 1000 50 2]"
  let ?p = "\<lparr>dt_txt = ''2024-01-01'', temp = Finite 15, pressure = Finite 1005,
             humidity = Finite 55, wind = Finite 3\<rparr>"
  let ?q = "\<lparr>dt_txt = ''2024-01-02'', temp = Finite 8, pressure = Finite 990,
             humidity = Finite 70, wind = Finite 6\<rparr>"
  let ?sorted = "sort_key (\<lambda>q. the (sample_getTime (dt_txt q))) (map to_point ?list)"
  have parsed: "\<forall>item\<in>set ?list. sample_getTime (item_dt_txt item) \<noteq> None"
    by (simp add: observation_def sample_getTime_def)
  have doubles: "double_value (Finite 8)" "double_value (Finite 990)"
    "double_value (Finite 70)" "double_value (Finite 6)"
    by (simp_all add: double_value_def round64_examples)
  have out: "normalize sample_getTime ''day'' ?list = [?p, ?q]"
    by (simp add: pipeline_defs sort_defs grouping_defs number_defs round64_examples)
  have day1: "day_items ''2024-01-01'' ?sorted =
      [to_point (observation ''2024-01-01 00:00:00'' 10 1000 50 2),
       to_point (observation ''2024-01-01 03:00:00'' 20 1010 60 4)]"
    by (simp add: day_items_def sort_key_def observation_def to_point_def sample_getTime_def
        date_of_def)
  then have day1': "day_items (dt_txt ?p) ?sorted =
      [to_point (observation ''2024-01-01 00:00:00'' 10 1000 50 2),
       to_point (observation ''2024-01-01 03:00:00'' 20 1010 60 4)]"
    by simp
  have day2: "same_day ''2024-01-02'' ?list = [observation ''2024-01-02 00:00:00'' 8 990 70 6]"
    by (simp add: same_day_def observation_def date_of_def)
  from out have p: "?p \<in> set (normalize sample_getTime ''day'' ?list)"
    and q: "?q \<in> set (normalize sample_getTime ''day'' ?list)" by simp_all
  from day_points_are_means [of sample_getTime ?list] parsed p
  have "temp ?p = mean64 (map temp (day_items (dt_txt ?p) ?sorted))"
    "pressure ?p = mean64 (map pressure (day_items (dt_txt ?p) ?sorted))"
    "humidity ?p = mean64 (map humidity (day_items (dt_txt ?p) ?sorted))"
    "wind ?p = mean64 (map wind (day_items (dt_txt ?p) ?sorted))"
    by blast+
  then have means: "Finite 15 = mean64 [Finite 10, Finite 20]"
    "Finite 1005 = mean64 [Finite 1000, Finite 1010]"
    "Finite 55 = mean64 [Finite 50, Finite 60]" "Finite 3 = mean64 [Finite 2, Finite 4]"
    by (simp_all only: day1') (simp_all add: observation_def to_point_def round64_examples)
  from parsed p q day1 day2 doubles means show ?thesis
    by (simp add: sample_getTime_def)
qed

text \<open>
  The mean of the real numbers is not what the code returns. For three observations
  of one day with the temperatures 1, 1 and 2 the sum is 4 and the quotient is the
  double nearest to 4/3, which is \<open>6004799503160661 / 2^52\<close>.
\<close>

theorem day_mean_is_rounded:
  "normalize sample_getTime ''day''
     [observation ''2024-01-01 00:00:00'' 1 1000 50 2,
      observation ''2024-01-01 03:00:00'' 1 1000 50 2,
      observation ''2024-01-01 06:00:00'' 2 1000 50 2] =
   [\<lparr>dt_txt = ''2024-01-01'', temp = Finite (6004799503160661 / 4503599627370496),
     pressure = Finite 1000, humidity = Finite 50, wind = Finite 2\<rparr>] \<and>
   exact_mean [1, 1, 2] = 4 / 3 \<and>
   Finite (6004799503160661 / 4503599627370496) \<noteq> Finite (exact_mean [1, 1, 2])"
  by (simp add: pipeline_defs sort_defs grouping_defs number_defs round64_examples exact_mean_def)

lemma dt_txt_group_by_day:
  "map dt_txt (group_by_day xs) = object_keys (foldl group_step [] xs)"
  by (simp add: group_by_day_def average_def comp_def Let_def)

lemma grouped_keys_sorted:
  "sorted (map (\<lambda>p. date_of (dt_txt p)) xs) \<Longrightarrow>
   sorted_wrt (<) (map fst (foldl group_step [] xs))"
proof (induction xs rule: rev_induct)
  case Nil
  then show ?case by simp
next
  case (snoc x xs)
  let ?gd = "foldl group_step [] xs"
  let ?d = "date_of (dt_txt x)"
  from snoc.prems have before: "\<forall>y\<in>set xs. date_of (dt_txt y) \<le> ?d"
    and "sorted (map (\<lambda>p. date_of (dt_txt p)) xs)"
    by (auto simp: sorted_append)
  then have IH: "sorted_wrt (<) (map fst ?gd)" by (simp add: snoc.IH)
  show ?case
  proof (cases "?d \<in> set (map fst ?gd) \<or> inherited ?d")
    case True
    with IH show ?thesis by (simp add: keys_group_step)
  next
    case False
    have "k < ?d" if "k \<in> fst ` set ?gd" for k
    proof -
      from that have "k \<in> (\<lambda>p. date_of (dt_txt p)) ` set xs"
        by (simp add: grouped_keys)
      with before have "k \<le> ?d" by auto
      moreover from that False have "k \<noteq> ?d" by (metis list.set_map)
      ultimately show ?thesis by simp
    qed
    with IH False show ?thesis
      by (simp add: keys_group_step sorted_wrt_append)
  qed
qed

lemma dates_of_points:
  "(\<lambda>p. date_of (dt_txt p)) ` set (sort_data getTime (map to_point list)) =
   (\<lambda>item. date_of (item_dt_txt item)) ` set list"
  by (simp add: set_sort_data image_image to_point_def)

text \<open>
  The dates of forecast timestamps, which start with a digit and contain a dash, are
  neither inherited names nor array indices.
\<close>

lemma digit_first_not_inherited: "d \<noteq> [] \<Longrightarrow> is_digit (hd d) \<Longrightarrow> \<not> inherited d"
  by (auto simp: inherited_def object_prototype_names_def is_digit_def)

lemma dash_not_array_index:
  assumes "CHR ''-'' \<in> set d"
  shows "\<not> is_array_index d"
proof -
  have "\<not> is_digit (CHR ''-'')" by (simp add: is_digit_def)
  with assms have "\<not> list_all is_digit d" by (auto simp: list_all_iff)
  then show ?thesis by (simp add: is_array_index_def)
qed

text \<open>The dates of the output do not depend on how the sort arranges the points:
  whatever arrangement of the extracted points is grouped, the result has one point
  for each date prefix that is not an inherited name.\<close>

lemma day_dates_any_arrangement:
  assumes "mset xs = mset (map to_point list)"
  shows "distinct (map dt_txt (group_by_day xs)) \<and>
         set (map dt_txt (group_by_day xs)) =
           {d \<in> (\<lambda>item. date_of (item_dt_txt item)) ` set list. \<not> inherited d}"
proof -
  from assms have "set xs = set (map to_point list)" by (rule mset_eq_setD)
  then have "(\<lambda>p. date_of (dt_txt p)) ` set xs =
      (\<lambda>item. date_of (item_dt_txt item)) ` set list"
    by (simp add: image_image to_point_def)
  then have "fst ` set (foldl group_step [] xs) =
      {d \<in> (\<lambda>item. date_of (item_dt_txt item)) ` set list. \<not> inherited d}"
    by (simp only: grouped_keys)
  moreover have "distinct (object_keys (foldl group_step [] xs))"
    by (rule distinct_object_keys) (rule grouped_distinct)
  ultimately show ?thesis
    by (simp only: dt_txt_group_by_day set_object_keys)
qed

text \<open>The dates of the output, for every response list.\<close>

lemma day_output_dates:
  "distinct (map dt_txt (normalize getTime ''day'' list)) \<and>
   set (map dt_txt (normalize getTime ''day'' list)) =
     {d \<in> (\<lambda>item. date_of (item_dt_txt item)) ` set list. \<not> inherited d} \<and>
   length (normalize getTime ''day'' list) =
     card {d \<in> (\<lambda>item. date_of (item_dt_txt item)) ` set list. \<not> inherited d} \<and>
   ((\<forall>item\<in>set list. getTime (item_dt_txt item) \<noteq> None \<and>
        \<not> is_array_index (date_of (item_dt_txt item))) \<and>
    (\<forall>a\<in>set list. \<forall>b\<in>set list. time_le getTime (to_point a) (to_point b) \<longrightarrow>
        date_of (item_dt_txt a) \<le> date_of (item_dt_txt b)) \<longrightarrow>
    sorted_wrt (<) (map dt_txt (normalize getTime ''day'' list)))"
proof -
  let ?xs = "sort_data getTime (map to_point list)"
  let ?gd = "foldl group_step [] ?xs"
  let ?dates = "{d \<in> (\<lambda>item. date_of (item_dt_txt item)) ` set list. \<not> inherited d}"
  have out: "map dt_txt (normalize getTime ''day'' list) = object_keys ?gd"
    by (simp add: normalize_def normalize_points_def dt_txt_group_by_day)
  have keys: "fst ` set ?gd = ?dates"
    by (simp only: grouped_keys dates_of_points)
  have d: "distinct (map dt_txt (normalize getTime ''day'' list))"
    unfolding out by (rule distinct_object_keys) (rule grouped_distinct)
  have s: "set (map dt_txt (normalize getTime ''day'' list)) = ?dates"
    unfolding out by (simp only: set_object_keys keys)
  have "length (normalize getTime ''day'' list) =
        length (map dt_txt (normalize getTime ''day'' list))" by simp
  also have "\<dots> = card (set (map dt_txt (normalize getTime ''day'' list)))"
    using d by (rule distinct_card [symmetric])
  finally have l: "length (normalize getTime ''day'' list) = card ?dates"
    by (simp only: s)
  have o: "sorted_wrt (<) (map dt_txt (normalize getTime ''day'' list))"
    if ok: "\<forall>item\<in>set list. getTime (item_dt_txt item) \<noteq> None \<and>
        \<not> is_array_index (date_of (item_dt_txt item))"
      and mono: "\<forall>a\<in>set list. \<forall>b\<in>set list. time_le getTime (to_point a) (to_point b) \<longrightarrow>
        date_of (item_dt_txt a) \<le> date_of (item_dt_txt b)"
  proof -
    from ok have "\<forall>p\<in>set (map to_point list). getTime (dt_txt p) \<noteq> None"
      by (simp add: to_point_def)
    then have "sorted_wrt (time_le getTime) ?xs" by (rule ascending_sort_data)
    moreover have "date_of (dt_txt p) \<le> date_of (dt_txt q)"
      if "p \<in> set ?xs" "q \<in> set ?xs" "time_le getTime p q" for p q
    proof -
      from that obtain a b where "a \<in> set list" "b \<in> set list" "p = to_point a" "q = to_point b"
        by (auto simp: set_sort_data)
      with mono that(3) show ?thesis by (auto simp: to_point_def)
    qed
    ultimately have "sorted_wrt (\<lambda>p q. date_of (dt_txt p) \<le> date_of (dt_txt q)) ?xs"
      by (rule sorted_wrt_mono_rel [rotated])
    then have "sorted (map (\<lambda>p. date_of (dt_txt p)) ?xs)"
      by (simp add: sorted_map)
    then have "sorted_wrt (<) (map fst ?gd)" by (rule grouped_keys_sorted)
    moreover from ok have "\<forall>k\<in>fst ` set ?gd. \<not> is_array_index k"
      unfolding keys by auto
    then have "object_keys ?gd = map fst ?gd" by (rule object_keys_plain)
    ultimately show ?thesis by (simp only: out)
  qed
  from d s l o show ?thesis by blast
qed


text \<open>
  Claim C9, as amended. For every response list whose timestamps begin with a
  calendar-day prefix, the \<^verbatim>\<open>day\<close> output has exactly one point for each distinct prefix
  of the input and its timestamps are exactly those strings. When moreover every
  \<^verbatim>\<open>dt_txt\<close> is a date for the engine and the parsed times never order two entries
  against their date prefixes, the points appear in strictly ascending order of their
  date strings.
\<close>

theorem day_output_one_point_per_day:
  assumes "\<forall>item\<in>set list. calendar_prefix (date_of (item_dt_txt item))"
  shows "distinct (map dt_txt (normalize getTime ''day'' list)) \<and>
   set (map dt_txt (normalize getTime ''day'' list)) =
     (\<lambda>item. date_of (item_dt_txt item)) ` set list \<and>
   length (normalize getTime ''day'' list) =
     card ((\<lambda>item. date_of (item_dt_txt item)) ` set list) \<and>
   ((\<forall>item\<in>set list. getTime (item_dt_txt item) \<noteq> None) \<and>
    (\<forall>a\<in>set list. \<forall>b\<in>set list. time_le getTime (to_point a) (to_point b) \<longrightarrow>
        date_of (item_dt_txt a) \<le> date_of (item_dt_txt b)) \<longrightarrow>
    sorted_wrt (<) (map dt_txt (normalize getTime ''day'' list)))"
proof -
  from assms have own: "\<forall>item\<in>set list. \<not> inherited (date_of (item_dt_txt item))"
    and plain: "\<forall>item\<in>set list. \<not> is_array_index (date_of (item_dt_txt item))"
    by (auto simp: calendar_prefix_def digit_first_not_inherited dash_not_array_index)
  from own have "{d \<in> (\<lambda>item. date_of (item_dt_txt item)) ` set list. \<not> inherited d} =
      (\<lambda>item. date_of (item_dt_txt item)) ` set list"
    by auto
  with day_output_dates [of getTime list] plain show ?thesis by simp
qed

theorem day_output_one_point_per_day_witness:
  "calendar_prefix ''2024-01-01'' \<and> calendar_prefix ''2024-01-02'' \<and>
   sample_getTime ''2024-01-02 00:00:00'' = Some 1704153600000 \<and>
   sample_getTime ''2024-01-01 03:00:00'' = Some 1704078000000 \<and>
   sample_getTime ''2024-01-01 00:00:00'' = Some 1704067200000 \<and>
   map dt_txt (normalize sample_getTime ''day''
     [observation ''2024-01-02 00:00:00'' 8 990 70 6,
      observation ''2024-01-01 03:00:00'' 20 1010 60 4,
      observation ''2024-01-01 00:00:00'' 10 1000 50 2]) = [''2024-01-01'', ''2024-01-02''] \<and>
   sorted_wrt (<) (map dt_txt (normalize sample_getTime ''day''
     [observation ''2024-01-02 00:00:00'' 8 990 70 6,
      observation ''2024-01-01 03:00:00'' 20 1010 60 4,
      observation ''2024-01-01 00:00:00'' 10 1000 50 2])) \<and>
   length (normalize sample_getTime ''day''
     [observation ''2024-01-02 00:00:00'' 8 990 70 6,
      observation ''2024-01-01 03:00:00'' 20 1010 60 4,
      observation ''2024-01-01 00:00:00'' 10 1000 50 2]) =
   card {''2024-01-01'', ''2024-01-02''}"
proof -
  let ?list = "[observation ''2024-01-02 00:00:00'' 8 990 70 6,
      observation ''2024-01-01 03:00:00'' 20 1010 60 4,
      observation ''2024-01-01 00:00:00'' 10 1000 50 2]"
  have shape: "\<forall>item\<in>set ?list. calendar_prefix (date_of (item_dt_txt item))"
    by (simp add: observation_def date_of_def calendar_prefix_def is_digit_def)
  have parsed: "\<forall>item\<in>set ?list. sample_getTime (item_dt_txt item) \<noteq> None"
    by (simp add: observation_def sample_getTime_def)
  have mono: "\<forall>a\<in>set ?list. \<forall>b\<in>set ?list.
      time_le sample_getTime (to_point a) (to_point b) \<longrightarrow>
      date_of (item_dt_txt a) \<le> date_of (item_dt_txt b)"
    by (simp add: observation_def sample_getTime_def date_of_def time_le_def to_point_def)
  have dates: "(\<lambda>item. date_of (item_dt_txt item)) ` set ?list =
      {''2024-01-01'', ''2024-01-02''}"
    by (auto simp: observation_def date_of_def)
  have out: "map dt_txt (normalize sample_getTime ''day'' ?list) = [''2024-01-01'', ''2024-01-02'']"
    by (simp add: pipeline_defs sort_defs grouping_defs)
  from day_output_one_point_per_day [OF shape, of sample_getTime] parsed mono
  have "sorted_wrt (<) (map dt_txt (normalize sample_getTime ''day'' ?list))"
    and "length (normalize sample_getTime ''day'' ?list) =
      card ((\<lambda>item. date_of (item_dt_txt item)) ` set ?list)"
    by blast+
  then show ?thesis
    unfolding dates using out
    by (simp add: sample_getTime_def calendar_prefix_def is_digit_def)
qed

text \<open>
  Without the conditions the order fails. Both \<^verbatim>\<open>dt_txt\<close> below begin with a calendar
  day, but the hour 25 makes them dates for no engine: each comparison yields \<^verbatim>\<open>NaN\<close>,
  read as 0, the stable sort keeps the input order, and the output lists 2024-01-02 in
  front of 2024-01-01.
\<close>

theorem day_output_unparsed_dates:
  "calendar_prefix (date_of ''2024-01-02 25:00:00'') \<and>
   calendar_prefix (date_of ''2024-01-01 25:00:00'') \<and>
   sample_getTime ''2024-01-02 25:00:00'' = None \<and>
   sample_getTime ''2024-01-01 25:00:00'' = None \<and>
   map dt_txt (normalize sample_getTime ''day''
     [observation ''2024-01-02 25:00:00'' 20 1010 60 4,
      observation ''2024-01-01 25:00:00'' 10 1000 50 2]) = [''2024-01-02'', ''2024-01-01''] \<and>
   \<not> sorted_wrt (<) (map dt_txt (normalize sample_getTime ''day''
     [observation ''2024-01-02 25:00:00'' 20 1010 60 4,
      observation ''2024-01-01 25:00:00'' 10 1000 50 2]))"
proof -
  let ?list = "[observation ''2024-01-02 25:00:00'' 20 1010 60 4,
      observation ''2024-01-01 25:00:00'' 10 1000 50 2]"
  have out: "map dt_txt (normalize sample_getTime ''day'' ?list) = [''2024-01-02'', ''2024-01-01'']"
    by (simp add: pipeline_defs sort_defs grouping_defs)
  have "\<not> sorted_wrt (<) [''2024-01-02'', ''2024-01-01'']" by simp
  then show ?thesis unfolding out
    by (simp add: date_of_def calendar_prefix_def is_digit_def sample_getTime_def)
qed

section \<open>The claims about the fetch and the handlers\<close>


lemma reachable_fetch:
  assumes "reachable API_KEY s"
  shows "reachable API_KEY (fst (fetchWeatherData getTime API_KEY net cityName g s))"
proof (cases "configured API_KEY")
  case False
  with assms show ?thesis by (simp add: fetchWeatherData_def reachable.rejected)
next
  case True
  with assms have begun: "reachable API_KEY (s\<lparr>isLoading := True, error := None\<rparr>)"
    by (rule reachable.started)
  show ?thesis
  proof (cases "fst (try_block getTime net cityName g)")
    case (Inl e)
    from reachable.failed [OF begun True, of "message_of e"] Inl True show ?thesis
      by (simp add: fetchWeatherData_def split_beta)
  next
    case (Inr wd)
    from reachable.succeeded [OF begun True, of wd] Inr True show ?thesis
      by (simp add: fetchWeatherData_def split_beta)
  qed
qed

lemma reachable_handlers:
  assumes "reachable API_KEY s"
  shows "reachable API_KEY (fst (handleCitySubmit getTime API_KEY net s))"
    and "reachable API_KEY (fst (handleInputChange v s))"
    and "reachable API_KEY (fst (handleMetricChange v s))"
    and "reachable API_KEY (fst (handleGranularityChange getTime API_KEY net v s))"
  using assms
  by (simp_all add: handleCitySubmit_def handleInputChange_def handleMetricChange_def
      handleGranularityChange_def Let_def reachable_fetch reachable.set_city
      reachable.set_metric reachable.set_granularity)



text \<open>
  Claim C4. A fetch attempt without a configured key issues no request and sets
  \<^verbatim>\<open>error\<close> to \<^verbatim>\<open>API key is not configured\<close>; nothing else changes.
\<close>

theorem missing_key_no_request:
  "\<not> configured API_KEY \<Longrightarrow>
   fetchWeatherData getTime API_KEY net cityName g s =
     (s\<lparr>error := Some ''API key is not configured''\<rparr>, [])"
  by (simp add: fetchWeatherData_def)

theorem missing_key_no_request_witness:
  "\<not> configured None \<and>
   fetchWeatherData sample_getTime None
     \<lparr>geo_response = \<lambda>q. Inr [], forecast_response = \<lambda>x y. Inr []\<rparr> ''Oslo'' ''3h'' initial =
     (initial\<lparr>error := Some ''API key is not configured''\<rparr>, [])"
  using missing_key_no_request [of None sample_getTime
      "\<lparr>geo_response = \<lambda>q. Inr [], forecast_response = \<lambda>x y. Inr []\<rparr>" "''Oslo''" "''3h''" initial]
  by (simp add: configured_def)

text \<open>
  Claim C6. When the city input trims to the empty string, submitting the form issues
  no request and leaves the whole state, \<^verbatim>\<open>isLoading\<close> and \<^verbatim>\<open>error\<close> included, as it
  was.
\<close>

theorem blank_city_submit_is_noop:
  "trim (city s) = [] \<Longrightarrow> handleCitySubmit getTime API_KEY net s = (s, [])"
  by (simp add: handleCitySubmit_def)

theorem blank_city_submit_is_noop_witness:
  "trim (city (initial\<lparr>city := [CHR '' '', CHR 0x09, CHR '' '']\<rparr>)) = [] \<and>
   handleCitySubmit sample_getTime (Some ''key'')
     \<lparr>geo_response = \<lambda>q. Inr [], forecast_response = \<lambda>x y. Inr []\<rparr>
     (initial\<lparr>city := [CHR '' '', CHR 0x09, CHR '' '']\<rparr>) =
     (initial\<lparr>city := [CHR '' '', CHR 0x09, CHR '' '']\<rparr>, [])"
  using blank_city_submit_is_noop [of "initial\<lparr>city := [CHR '' '', CHR 0x09, CHR '' '']\<rparr>"
      sample_getTime "Some ''key''"
      "\<lparr>geo_response = \<lambda>q. Inr [], forecast_response = \<lambda>x y. Inr []\<rparr>"]
  by (simp add: trim_def is_white_space_def)

text \<open>
  Claim C8. Changing the metric issues no request and changes the \<^verbatim>\<open>metric\<close> variable
  only: \<^verbatim>\<open>cityData\<close>, whether it holds a series or not, and every other variable keep
  their values.
\<close>

theorem metric_change_only_metric:
  "snd (handleMetricChange v s) = [] \<and>
   metric (fst (handleMetricChange v s)) = v \<and>
   cityData (fst (handleMetricChange v s)) = cityData s \<and>
   city (fst (handleMetricChange v s)) = city s \<and>
   granularity (fst (handleMetricChange v s)) = granularity s \<and>
   isLoading (fst (handleMetricChange v s)) = isLoading s \<and>
   error (fst (handleMetricChange v s)) = error s"
  by (simp add: handleMetricChange_def)

end
